theory Spec2Isabelle
  imports Main "HOL-Library.Multiset"
begin

section \<open>Data model\<close>

text \<open>
  Object ids of users and messages are opaque identifiers; they are modelled as natural
  numbers. Dates are points of a clock, also natural numbers. The values of
  \<^verbatim>\<open>new Date()\<close> and of the id that \<^verbatim>\<open>new Message(...)\<close> draws are
  inputs of each operation (\<open>now\<close>, \<open>newId\<close>).
\<close>

type_synonym uid = nat
type_synonym mid = nat
type_synonym time = nat
type_synonym handle = nat

text \<open>
  A string that a client sends where an id is expected (a field of a request body or of a
  socket payload, a route parameter). It is the canonical spelling of an id, the 24
  lower-case hexadecimal digits that \<^verbatim>\<open>toString()\<close> of the id gives; or another
  spelling that casts to the id (the same digits in upper case, for one), told apart by a
  number; or a string that does not cast to any id. Equality of these values is equality
  of the strings. \<open>cast\<close> is the conversion that queries, \<^verbatim>\<open>new Message\<close> and
  \<^verbatim>\<open>ObjectId.isValid\<close> apply; \<open>toString\<close> is the spelling of a stored id. The id of
  the authenticated user of a request (\<^verbatim>\<open>req.user.id\<close>) is read from the stored
  user, so it is always canonical and is passed as the id itself.
\<close>

datatype idstr = Canonical uid | Variant uid nat | Malformed string

fun cast :: "idstr \<Rightarrow> uid option" where
  "cast (Canonical u) = Some u"
| "cast (Variant u k) = Some u"
| "cast (Malformed x) = None"

definition toString :: "uid \<Rightarrow> idstr" where
  "toString u = Canonical u"

text \<open>
  \<^verbatim>\<open>models/User.js\<close>: the fields the message and socket code reads or writes.
  \<open>status\<close> is a string of the schema's enum; \<open>lastSeen\<close> is a date or null.
\<close>

record user =
  name :: string
  avatar :: string
  status :: string
  lastSeen :: "time option"
  blockedUsers :: "uid list"

text \<open>
  The message schema. \<open>reactions\<close> is the array of \<^verbatim>\<open>{user, emoji}\<close> subdocuments,
  \<open>deletedFor\<close> the array of user ids; both keep order and duplicates, as arrays do.
\<close>

record message =
  msg_id :: mid
  sender :: uid
  receiver :: uid
  msg_text :: string
  messageType :: string
  mediaUrl :: "string option"
  isRead :: bool
  readAt :: "time option"
  reactions :: "(uid \<times> string) list"
  replyTo :: "mid option"
  isDeleted :: bool
  deletedFor :: "uid list"
  oneTimeView :: bool
  viewedAt :: "time option"
  timestamp :: time

text \<open>The database: the users collection by id, the messages collection in insertion order.\<close>

record db =
  users :: "uid \<rightharpoonup> user"
  messages :: "message list"

text \<open>The failure kinds of the request path, by status code: 400, 403, 404, 500.\<close>

datatype error = BadRequest | Forbidden | NotFound | ServerError

subsection \<open>Collection primitives\<close>

definition findById :: "db \<Rightarrow> mid \<Rightarrow> message option" where
  "findById d i = find (\<lambda>m. msg_id m = i) (messages d)"

text \<open>
  \<^verbatim>\<open>save()\<close> of a document that was loaded from the collection writes it back
  under its id. The documents of the collection passed the validators when they were
  inserted and no handler assigns an invalid value to a validated field, so this save does
  not fail.
\<close>

definition save :: "db \<Rightarrow> message \<Rightarrow> db" where
  "save d m = d\<lparr>messages := map (\<lambda>x. if msg_id x = msg_id m then m else x) (messages d)\<rparr>"

definition message_types :: "string list" where
  "message_types = [''text'', ''image'', ''video'', ''audio'', ''document'', ''location'']"

text \<open>
  The schema's validators, run by \<^verbatim>\<open>save()\<close> of a new document: \<open>text\<close> is
  required (an empty string fails), \<open>messageType\<close> is one of the enum.
\<close>

definition validate :: "message \<Rightarrow> bool" where
  "validate m = (msg_text m \<noteq> [] \<and> messageType m \<in> set message_types)"

text \<open>
  \<^verbatim>\<open>save()\<close> of a new document: validation, then an insert, which the unique index
  on the id rejects when the id is taken. Either failure is the exception the callers catch.
\<close>

definition insert_new :: "db \<Rightarrow> message \<Rightarrow> db option" where
  "insert_new d m =
     (if \<not> validate m then None
      else if msg_id m \<in> set (map msg_id (messages d)) then None
      else Some (d\<lparr>messages := messages d @ [m]\<rparr>))"

text \<open>
  The document that \<^verbatim>\<open>new Message({...})\<close> builds in both send paths, with the
  defaults \<^verbatim>\<open>messageType || "text"\<close>, \<^verbatim>\<open>mediaUrl || null\<close> and the schema's
  defaults of the remaining fields.
\<close>

definition or_text :: "string \<Rightarrow> string" where
  "or_text s = (if s = [] then ''text'' else s)"

definition or_null :: "string option \<Rightarrow> string option" where
  "or_null u = (case u of None \<Rightarrow> None | Some s \<Rightarrow> if s = [] then None else Some s)"

definition new_message ::
  "mid \<Rightarrow> uid \<Rightarrow> uid \<Rightarrow> string \<Rightarrow> string \<Rightarrow> string option \<Rightarrow> mid option \<Rightarrow> bool \<Rightarrow> time \<Rightarrow> message" where
  "new_message newId s r t ty mu rt otv now =
     \<lparr>msg_id = newId, sender = s, receiver = r, msg_text = t, messageType = or_text ty,
      mediaUrl = or_null mu, isRead = False, readAt = None, reactions = [], replyTo = rt,
      isDeleted = False, deletedFor = [], oneTimeView = otv, viewedAt = None,
      timestamp = now\<rparr>"

text \<open>
  \<^verbatim>\<open>populate\<close>: the sender and receiver ids are replaced by the name and avatar of
  the user they resolve to, or by null when there is no such user; the replied-to message
  is resolved the same way, with its own sender.
\<close>

type_synonym profile = "string \<times> string"

record populated =
  p_msg :: message
  p_sender :: "profile option"
  p_receiver :: "profile option"
  p_replyTo :: "(message \<times> profile option) option"

definition profile_of :: "db \<Rightarrow> uid \<Rightarrow> profile option" where
  "profile_of d u = map_option (\<lambda>x. (name x, avatar x)) (users d u)"

definition populate :: "db \<Rightarrow> message \<Rightarrow> populated" where
  "populate d m =
     \<lparr>p_msg = m, p_sender = profile_of d (sender m), p_receiver = profile_of d (receiver m),
      p_replyTo = (case replyTo m of None \<Rightarrow> None
                   | Some i \<Rightarrow> map_option (\<lambda>r. (r, profile_of d (sender r))) (findById d i))\<rparr>"

section \<open>The request path: \<^verbatim>\<open>controllers/messageController.js\<close>\<close>

text \<open>The body of a send request.\<close>

record send_body =
  b_receiver :: "idstr option"
  b_text :: string
  b_messageType :: string
  b_mediaUrl :: "string option"
  b_replyTo :: "mid option"
  b_oneTimeView :: bool

text \<open>
  \<^verbatim>\<open>sendMessage\<close>: the receiver must resolve to a user (404), the receiver's
  block list must not hold the sender (403); then the message is built, saved and returned
  populated (201): the response is the document that \<^verbatim>\<open>findById\<close> loads again
  under the saved id. A failing save is caught and answered with 500, and so is a receiver
  string that does not cast, on which \<^verbatim>\<open>User.findById\<close> throws. A request without
  a receiver looks up no user and is answered like an unknown receiver.
  \<^verbatim>\<open>blockedUsers.includes(sender)\<close> compares the spellings of the stored ids with the
  sender string, which is canonical here.
\<close>

definition sendMessage ::
  "db \<Rightarrow> uid \<Rightarrow> send_body \<Rightarrow> mid \<Rightarrow> time \<Rightarrow> (error + populated option) \<times> db" where
  "sendMessage d s b newId now =
     (case b_receiver b of
        None \<Rightarrow> (Inl NotFound, d)
      | Some receiver_str \<Rightarrow>
          (case cast receiver_str of
             None \<Rightarrow> (Inl ServerError, d)
           | Some r \<Rightarrow>
               (case users d r of
                  None \<Rightarrow> (Inl NotFound, d)
                | Some receiverUser \<Rightarrow>
                    if toString s \<in> set (map toString (blockedUsers receiverUser))
                    then (Inl Forbidden, d)
                    else (case insert_new d (new_message newId s r (b_text b) (b_messageType b)
                                 (b_mediaUrl b) (b_replyTo b) (b_oneTimeView b) now) of
                            None \<Rightarrow> (Inl ServerError, d)
                          | Some d' \<Rightarrow>
                              (Inr (map_option (populate d') (findById d' newId)), d')))))"

text \<open>
  \<^verbatim>\<open>getMessages\<close>. A route parameter that is not a valid object id is answered
  with 400. The query casts the parameter and selects the messages between the two users that the requester has
  not hidden, ascending by \<open>timestamp\<close> (the model keeps the insertion order among equal
  timestamps, where the database promises no order; the statements below use only that the
  result is sorted and holds the selected messages). The filter of line 91 reads
  \<^verbatim>\<open>msg.sender._id\<close> of every populated message, which throws when a sender did
  not resolve (500), and compares its \<^verbatim>\<open>toString()\<close> with the route parameter as
  it was sent. The unread messages this filter keeps are then updated in the collection;
  the response is the list that was loaded before the update.
\<close>

definition between :: "uid \<Rightarrow> uid \<Rightarrow> message \<Rightarrow> bool" where
  "between u c m = ((sender m = u \<and> receiver m = c) \<or> (sender m = c \<and> receiver m = u))"

definition query_messages :: "db \<Rightarrow> uid \<Rightarrow> uid \<Rightarrow> message list" where
  "query_messages d u c =
     sort_key timestamp (filter (\<lambda>m. between u c m \<and> u \<notin> set (deletedFor m)) (messages d))"

definition updateMany_read :: "db \<Rightarrow> mid list \<Rightarrow> time \<Rightarrow> db" where
  "updateMany_read d ids now =
     d\<lparr>messages := map (\<lambda>x. if msg_id x \<in> set ids then x\<lparr>isRead := True, readAt := Some now\<rparr> else x)
                      (messages d)\<rparr>"

definition getMessages :: "db \<Rightarrow> uid \<Rightarrow> idstr \<Rightarrow> time \<Rightarrow> (error + populated list) \<times> db" where
  "getMessages d currentUserId otherUserId now =
     (case cast otherUserId of
        None \<Rightarrow> (Inl BadRequest, d)
      | Some other \<Rightarrow>
          (let msgs = map (populate d) (query_messages d currentUserId other) in
           if list_ex (\<lambda>p. p_sender p = None) msgs then (Inl ServerError, d)
           else
             (let unreadMessages =
                    filter (\<lambda>p. toString (sender (p_msg p)) = otherUserId \<and> \<not> isRead (p_msg p))
                      msgs
              in (Inr msgs,
                  if unreadMessages \<noteq> []
                  then updateMany_read d (map (\<lambda>p. msg_id (p_msg p)) unreadMessages) now
                  else d))))"

text \<open>
  \<^verbatim>\<open>markMessageRead\<close>: 404 when the message is absent, 403 unless the caller is the
  stored receiver; otherwise \<open>isRead\<close> and \<open>readAt\<close> are assigned, \<open>viewedAt\<close> only
  for a one-time-view message that has none yet.
\<close>

definition markMessageRead :: "db \<Rightarrow> mid \<Rightarrow> uid \<Rightarrow> time \<Rightarrow> (error + unit) \<times> db" where
  "markMessageRead d messageId userId now =
     (case findById d messageId of
        None \<Rightarrow> (Inl NotFound, d)
      | Some m \<Rightarrow>
          if receiver m \<noteq> userId then (Inl Forbidden, d)
          else (Inr (),
                save d (m\<lparr>isRead := True, readAt := Some now,
                          viewedAt := (if oneTimeView m \<and> viewedAt m = None then Some now
                                       else viewedAt m)\<rparr>)))"

text \<open>
  \<^verbatim>\<open>deleteMessage\<close>. \<open>deleteForEveryone\<close> is the query-string parameter, compared
  with the string \<^verbatim>\<open>"true"\<close>.
\<close>

definition tombstone :: string where
  "tombstone = ''This message was deleted''"

definition deleteMessage :: "db \<Rightarrow> mid \<Rightarrow> uid \<Rightarrow> string option \<Rightarrow> (error + unit) \<times> db" where
  "deleteMessage d messageId userId deleteForEveryone =
     (case findById d messageId of
        None \<Rightarrow> (Inl NotFound, d)
      | Some m \<Rightarrow>
          (let isSender = (sender m = userId); isReceiver = (receiver m = userId) in
           if \<not> isSender \<and> \<not> isReceiver then (Inl Forbidden, d)
           else if deleteForEveryone = Some ''true'' \<and> isSender
           then (Inr (), save d (m\<lparr>isDeleted := True, msg_text := tombstone\<rparr>))
           else (Inr (), save d (m\<lparr>deletedFor := deletedFor m @ [userId]\<rparr>))))"

text \<open>
  \<^verbatim>\<open>addReaction\<close>: 400 when the emoji is missing or empty, 404 when the message is
  absent; an existing reaction of the same user and emoji is filtered out, otherwise the
  pair is pushed. The response carries the new reactions array.
\<close>

definition toggle :: "uid \<Rightarrow> string \<Rightarrow> (uid \<times> string) list \<Rightarrow> (uid \<times> string) list" where
  "toggle userId emoji rs =
     (case find (\<lambda>r. fst r = userId \<and> snd r = emoji) rs of
        Some existingReaction \<Rightarrow> filter (\<lambda>r. \<not> (fst r = userId \<and> snd r = emoji)) rs
      | None \<Rightarrow> rs @ [(userId, emoji)])"

definition addReaction :: "db \<Rightarrow> mid \<Rightarrow> uid \<Rightarrow> string \<Rightarrow> (error + (uid \<times> string) list) \<times> db" where
  "addReaction d messageId userId emoji =
     (if emoji = [] then (Inl BadRequest, d)
      else case findById d messageId of
        None \<Rightarrow> (Inl NotFound, d)
      | Some m \<Rightarrow>
          (let m' = m\<lparr>reactions := toggle userId emoji (reactions m)\<rparr>
           in (Inr (reactions m'), save d m')))"

section \<open>The socket path: \<^verbatim>\<open>index.js\<close>\<close>

text \<open>
  The payload of the \<^verbatim>\<open>sendMessage\<close> socket event. A missing or empty field is
  \<open>None\<close> or the empty string: these are the values the handler's \<^verbatim>\<open>!x\<close>
  tests catch. Sender and receiver are the strings the client sent.
\<close>

record messageData =
  md_sender :: "idstr option"
  md_receiver :: "idstr option"
  md_text :: string
  md_messageType :: string
  md_mediaUrl :: "string option"
  md_replyTo :: "mid option"
  md_oneTimeView :: bool

text \<open>
  The three \<^verbatim>\<open>messageError\<close> events of the handler, by their message:
  "Missing required fields", "Cannot send message to this user", "Failed to send message".
  \<open>live_kind\<close> names the failure kind each one stands for.
\<close>

datatype live_error = MissingRequiredFields | CannotSendToUser | FailedToSend


text \<open>
  What a handler does, in the order it does it: a completed \<^verbatim>\<open>save()\<close> of a new
  message, a \<^verbatim>\<open>messageError\<close> to the originating socket, a \<^verbatim>\<open>newMessage\<close>
  to a room (\<^verbatim>\<open>io.to(room).emit\<close>; a room is named by a string), a
  \<^verbatim>\<open>userStatusUpdate\<close> broadcast to every socket but the originating one.
\<close>

datatype payload = Doc "populated option" | Raw messageData

datatype effect =
    Persist message
  | MessageError live_error
  | NewMessage "idstr option" payload
  | StatusUpdate handle uid string

text \<open>
  The \<^verbatim>\<open>sendMessage\<close> handler of \<^verbatim>\<open>index.js\<close>: the required fields, the block
  list of the receiver when the receiver resolves, then save, load again populated, and
  emit to the rooms of sender and receiver. \<^verbatim>\<open>User.findById(receiver)\<close> casts the
  receiver string and throws when it does not cast;
  \<^verbatim>\<open>blockedUsers.includes(sender)\<close> compares the spellings of the stored ids with the
  sender string as the client sent it; \<^verbatim>\<open>new Message\<close> casts sender and receiver,
  and the save fails when the sender does not cast. Every exception is caught and reported
  to the originating socket. The rooms are named by the strings of the payload. The handler
  passes no \<open>timestamp\<close>: the schema's default is the current date.
\<close>

definition live_sendMessage :: "db \<Rightarrow> messageData \<Rightarrow> mid \<Rightarrow> time \<Rightarrow> effect list \<times> db" where
  "live_sendMessage d md newId now =
     (case (md_sender md, md_receiver md) of
        (Some sender_str, Some receiver_str) \<Rightarrow>
          if md_text md = [] then ([MessageError MissingRequiredFields], d)
          else
            (case cast receiver_str of
               None \<Rightarrow> ([MessageError FailedToSend], d)
             | Some r \<Rightarrow>
                 if (case users d r of None \<Rightarrow> False
                     | Some receiverUser \<Rightarrow>
                         sender_str \<in> set (map toString (blockedUsers receiverUser)))
                 then ([MessageError CannotSendToUser], d)
                 else
                   (case cast sender_str of
                      None \<Rightarrow> ([MessageError FailedToSend], d)
                    | Some s \<Rightarrow>
                        (let newMessage = new_message newId s r (md_text md) (md_messageType md)
                                            (md_mediaUrl md) (md_replyTo md) (md_oneTimeView md) now
                         in case insert_new d newMessage of
                              None \<Rightarrow> ([MessageError FailedToSend], d)
                            | Some d' \<Rightarrow>
                                (let populatedMessage =
                                       map_option (populate d') (findById d' newId)
                                 in ([Persist newMessage,
                                      NewMessage (Some sender_str) (Doc populatedMessage),
                                      NewMessage (Some receiver_str) (Doc populatedMessage)],
                                     d')))))
      | _ \<Rightarrow> ([MessageError MissingRequiredFields], d))"

text \<open>
  The \<^verbatim>\<open>sendMessage\<close> handler of the second server file (\<^verbatim>\<open>unnamed/part_002\<close>):
  the payload is emitted to the rooms of sender and receiver as it came; the file has no
  message model and the handler touches no collection.
\<close>

definition relay_sendMessage :: "db \<Rightarrow> messageData \<Rightarrow> effect list \<times> db" where
  "relay_sendMessage d md =
     ([NewMessage (md_sender md) (Raw md), NewMessage (md_receiver md) (Raw md)], d)"

text \<open>
  Persist-then-route on a handler's trace: every \<^verbatim>\<open>newMessage\<close> emit comes after a
  completed save, and a populated payload is the saved message.
\<close>

fun backed :: "message option \<Rightarrow> payload \<Rightarrow> bool" where
  "backed (Some m) (Doc (Some p)) = (p_msg p = m)"
| "backed _ _ = False"

fun routed_after_persist :: "message option \<Rightarrow> effect list \<Rightarrow> bool" where
  "routed_after_persist saved [] = True"
| "routed_after_persist saved (Persist m # es) = routed_after_persist (Some m) es"
| "routed_after_persist saved (NewMessage room p # es) =
     (backed saved p \<and> routed_after_persist saved es)"
| "routed_after_persist saved (e # es) = routed_after_persist saved es"

definition persist_then_route :: "effect list \<Rightarrow> bool" where
  "persist_then_route tr = routed_after_persist None tr"

subsection \<open>Presence\<close>

text \<open>
  A connected socket has the closure variable \<^verbatim>\<open>currentUserId\<close> and the rooms it
  joined. The server is the database and the connected sockets by handle. The user id of
  a \<^verbatim>\<open>join\<close> is taken as the id it casts to, which is what
  \<^verbatim>\<open>findByIdAndUpdate\<close> updates.
\<close>

record sock =
  currentUserId :: "uid option"
  rooms :: "uid list"

record server =
  store :: db
  conns :: "handle \<rightharpoonup> sock"

text \<open>
  \<^verbatim>\<open>updateUserStatus\<close>: \<^verbatim>\<open>findByIdAndUpdate\<close> with \<open>status\<close> and with
  \<open>lastSeen\<close> the current date for "offline" and \<^verbatim>\<open>undefined\<close> otherwise. What an
  undefined value in an update does depends on the version of the object mapper (the key is
  dropped, or the field is set to null); \<open>omitUndefined\<close> is that choice. A user id that
  does not resolve updates nothing.
\<close>

definition updateUserStatus :: "bool \<Rightarrow> db \<Rightarrow> uid \<Rightarrow> string \<Rightarrow> time \<Rightarrow> db" where
  "updateUserStatus omitUndefined d userId st now =
     (case users d userId of
        None \<Rightarrow> d
      | Some u \<Rightarrow>
          d\<lparr>users := (users d)(userId \<mapsto>
               u\<lparr>status := st,
                 lastSeen := (if st = ''offline'' then Some now
                              else if omitUndefined then lastSeen u else None)\<rparr>)\<rparr>)"

definition on_connection :: "server \<Rightarrow> handle \<Rightarrow> server" where
  "on_connection s h = s\<lparr>conns := (conns s)(h \<mapsto> \<lparr>currentUserId = None, rooms = []\<rparr>)\<rparr>"

text \<open>The \<^verbatim>\<open>join\<close> handler; a missing user id does nothing.\<close>

definition on_join :: "bool \<Rightarrow> server \<Rightarrow> handle \<Rightarrow> uid option \<Rightarrow> time \<Rightarrow> effect list \<times> server" where
  "on_join omitUndefined s h userParam now =
     (case (conns s h, userParam) of
        (Some so, Some userId) \<Rightarrow>
          ([StatusUpdate h userId ''online''],
           s\<lparr>store := updateUserStatus omitUndefined (store s) userId ''online'' now,
             conns := (conns s)(h \<mapsto> so\<lparr>currentUserId := Some userId,
                                          rooms := rooms so @ [userId]\<rparr>)\<rparr>)
      | _ \<Rightarrow> ([], s))"

text \<open>
  The \<^verbatim>\<open>disconnect\<close> handler: when the socket has a \<^verbatim>\<open>currentUserId\<close>, that
  user is set offline and the change is broadcast. The socket is gone afterwards.
\<close>

definition on_disconnect :: "bool \<Rightarrow> server \<Rightarrow> handle \<Rightarrow> time \<Rightarrow> effect list \<times> server" where
  "on_disconnect omitUndefined s h now =
     (case conns s h of
        None \<Rightarrow> ([], s)
      | Some so \<Rightarrow>
          (case currentUserId so of
             None \<Rightarrow> ([], s\<lparr>conns := (conns s)(h := None)\<rparr>)
           | Some u \<Rightarrow>
               ([StatusUpdate h u ''offline''],
                s\<lparr>store := updateUserStatus omitUndefined (store s) u ''offline'' now,
                  conns := (conns s)(h := None)\<rparr>)))"

text \<open>The sockets that are connected and joined as a given user.\<close>

definition live_for :: "server \<Rightarrow> uid \<Rightarrow> handle \<Rightarrow> bool" where
  "live_for s u h = (case conns s h of None \<Rightarrow> False | Some so \<Rightarrow> currentUserId so = Some u)"

definition status_of :: "server \<Rightarrow> uid \<Rightarrow> string option" where
  "status_of s u = map_option status (users (store s) u)"

definition lastSeen_of :: "server \<Rightarrow> uid \<Rightarrow> time option" where
  "lastSeen_of s u = (case users (store s) u of None \<Rightarrow> None | Some x \<Rightarrow> lastSeen x)"

section \<open>Auxiliary notions of the statements\<close>

text \<open>The assignments of \<^verbatim>\<open>markMessageRead\<close> to the loaded document.\<close>

definition read_once :: "message \<Rightarrow> time \<Rightarrow> message" where
  "read_once m now = m\<lparr>isRead := True, readAt := Some now,
      viewedAt := (if oneTimeView m \<and> viewedAt m = None then Some now else viewedAt m)\<rparr>"

text \<open>
  The ids that \<^verbatim>\<open>getMessages\<close> passes to \<^verbatim>\<open>updateMany\<close>: the loaded messages
  that are unread and whose sender is spelled as the route parameter.
\<close>

definition unread_ids :: "db \<Rightarrow> uid \<Rightarrow> uid \<Rightarrow> idstr \<Rightarrow> mid list" where
  "unread_ids d u c other_str =
     map msg_id (filter (\<lambda>m. toString (sender m) = other_str \<and> \<not> isRead m)
                   (query_messages d u c))"

text \<open>
  An invariant of the collection: an unread message has no \<open>readAt\<close>. It holds of new
  messages and every operation keeps it (the lemmas \<open>read_inv_\<dots>\<close> below).
\<close>

definition read_inv :: "db \<Rightarrow> bool" where
  "read_inv d = list_all (\<lambda>m. isRead m \<or> readAt m = None) (messages d)"

section \<open>Example states\<close>

definition alice :: user where
  "alice = \<lparr>name = ''alice'', avatar = ''a.png'', status = ''offline'', lastSeen = None,
            blockedUsers = []\<rparr>"

definition bob :: user where
  "bob = \<lparr>name = ''bob'', avatar = ''b.png'', status = ''offline'', lastSeen = None,
          blockedUsers = [1]\<rparr>"

definition carol :: user where
  "carol = \<lparr>name = ''carol'', avatar = ''c.png'', status = ''offline'', lastSeen = None,
            blockedUsers = []\<rparr>"

text \<open>Users 1 (alice), 2 (bob, who has blocked alice) and 3 (carol); no messages.\<close>

definition db0 :: db where
  "db0 = \<lparr>users = [1 \<mapsto> alice, 2 \<mapsto> bob, 3 \<mapsto> carol], messages = []\<rparr>"

text \<open>Message 10 from alice to carol, unread, sent at time 5.\<close>

definition msg10 :: message where
  "msg10 = new_message 10 1 3 ''hi'' ''text'' None None False 5"

definition db1 :: db where
  "db1 = db0\<lparr>messages := [msg10]\<rparr>"

text \<open>
  A conversation of alice and carol stored out of time order: message 12 from carol at
  time 9, message 10 from alice at time 5, message 13 from alice at time 7 that carol has
  hidden, and message 14 from alice to bob.
\<close>

definition msg12 :: message where
  "msg12 = new_message 12 3 1 ''hello'' ''text'' None (Some 10) False 9"

definition msg13 :: message where
  "msg13 = (new_message 13 1 3 ''oops'' ''text'' None None False 7)\<lparr>deletedFor := [3]\<rparr>"

definition msg14 :: message where
  "msg14 = new_message 14 1 2 ''yo'' ''text'' None None False 6"

definition db2 :: db where
  "db2 = db0\<lparr>messages := [msg12, msg10, msg13, msg14]\<rparr>"

text \<open>Message 10 with two reactions.\<close>

definition msg10r :: message where
  "msg10r = msg10\<lparr>reactions := [(2, ''+1''), (1, ''ok'')]\<rparr>"

definition db1r :: db where
  "db1r = db0\<lparr>messages := [msg10r]\<rparr>"


definition md_to_bob :: messageData where
  "md_to_bob = \<lparr>md_sender = Some (Canonical 1), md_receiver = Some (Canonical 2), md_text = ''hello'',
      md_messageType = ''image'', md_mediaUrl = Some ''pic.png'', md_replyTo = None,
      md_oneTimeView = False\<rparr>"


text \<open>The same send with alice's id in another spelling (upper-case digits).\<close>

definition md_to_bob_upper :: messageData where
  "md_to_bob_upper = md_to_bob\<lparr>md_sender := Some (Variant 1 0)\<rparr>"

definition msg16 :: message where
  "msg16 = new_message 16 1 2 ''hello'' ''image'' (Some ''pic.png'') None False 5"

definition body_to_nobody :: send_body where
  "body_to_nobody = \<lparr>b_receiver = Some (Canonical 99), b_text = ''hi'', b_messageType = ''text'',
      b_mediaUrl = None, b_replyTo = None, b_oneTimeView = False\<rparr>"

definition md_to_nobody :: messageData where
  "md_to_nobody = \<lparr>md_sender = Some (Canonical 1), md_receiver = Some (Canonical 99), md_text = ''hi'',
      md_messageType = ''text'', md_mediaUrl = None, md_replyTo = None,
      md_oneTimeView = False\<rparr>"

definition msg11 :: message where
  "msg11 = new_message 11 1 99 ''hi'' ''text'' None None False 5"

definition md_to_carol :: messageData where
  "md_to_carol = \<lparr>md_sender = Some (Canonical 1), md_receiver = Some (Canonical 3), md_text = ''hi'',
      md_messageType = ''text'', md_mediaUrl = None, md_replyTo = None,
      md_oneTimeView = False\<rparr>"

definition msg15 :: message where
  "msg15 = new_message 15 1 3 ''hi'' ''text'' None None False 5"

text \<open>
  A server on which carol (user 3) has joined from two sockets, 1 at time 20 and 2 at
  time 21, built by running the handlers.
\<close>

definition srv0 :: server where
  "srv0 = \<lparr>store = db0, conns = Map.empty\<rparr>"

definition srv_one :: server where
  "srv_one = snd (on_join True (on_connection srv0 1) 1 (Some 3) 20)"

definition srv_two :: server where
  "srv_two = snd (on_join True (on_connection srv_one 2) 2 (Some 3) 21)"

section \<open>Facts about the collection primitives\<close>

lemma findById_SomeD: "findById d i = Some m \<Longrightarrow> m \<in> set (messages d) \<and> msg_id m = i"
  unfolding findById_def by (auto simp: find_Some_iff)

lemma find_map_replace:
  "find (\<lambda>m. msg_id m = i) xs = Some m \<Longrightarrow> msg_id m' = i \<Longrightarrow>
   find (\<lambda>m. msg_id m = i) (map (\<lambda>x. if msg_id x = i then m' else x) xs) = Some m'"
  by (induction xs) (auto split: if_splits)

lemma findById_save:
  "findById d i = Some m \<Longrightarrow> msg_id m' = i \<Longrightarrow> findById (save d m') i = Some m'"
  unfolding findById_def save_def by (simp add: find_map_replace)

lemma users_save [simp]: "users (save d m) = users d"
  by (simp add: save_def)

lemma save_save: "msg_id m' = msg_id m \<Longrightarrow> save (save d m) m' = save d m'"
  by (simp add: save_def comp_def cong: if_cong)

lemma findById_db1: "findById db1 10 = Some msg10"
  by (simp add: findById_def db1_def db0_def msg10_def new_message_def)

section \<open>Marking a message read\<close>

lemma markMessageRead_receiver:
  "findById d i = Some m \<Longrightarrow> receiver m = u \<Longrightarrow>
   markMessageRead d i u now = (Inr (), save d (read_once m now))"
  by (simp add: markMessageRead_def read_once_def)

lemma read_once_twice: "read_once (read_once m t1) t2 = (read_once m t1)\<lparr>readAt := Some t2\<rparr>"
  by (simp add: read_once_def)

text \<open>
  C5. For a stored message \<open>m\<close> and any user \<open>u\<close> who is not its stored receiver (the
  sender and third parties alike), \<^verbatim>\<open>markMessageRead\<close> answers Forbidden and the
  database, hence \<open>isRead\<close>, \<open>readAt\<close> and \<open>viewedAt\<close> of \<open>m\<close>, is unchanged.
\<close>

theorem markRead_not_receiver_forbidden:
  "findById d i = Some m \<Longrightarrow> receiver m \<noteq> u \<Longrightarrow>
   markMessageRead d i u now = (Inl Forbidden, d)"
  by (simp add: markMessageRead_def)

theorem markRead_not_receiver_forbidden_witness:
  "findById db1 10 = Some msg10 \<and> receiver msg10 \<noteq> 1 \<and> receiver msg10 \<noteq> 2 \<and>
   markMessageRead db1 10 1 8 = (Inl Forbidden, db1) \<and>
   markMessageRead db1 10 2 8 = (Inl Forbidden, db1)"
  using markRead_not_receiver_forbidden [of db1 10 msg10 1 8]
        markRead_not_receiver_forbidden [of db1 10 msg10 2 8] findById_db1
  by (simp add: msg10_def new_message_def)

text \<open>
  C4, as stated, fails: the receiver (user 3) marks message 10 read at time 7 and again at
  time 9. Both calls succeed, but the second one stamps \<open>readAt\<close> again, so the state
  after two calls differs from the state after one.
\<close>

theorem markRead_twice_counterexample:
  "markMessageRead db1 10 3 7 = (Inr (), save db1 (read_once msg10 7)) \<and>
   markMessageRead (save db1 (read_once msg10 7)) 10 3 9
     = (Inr (), save db1 ((read_once msg10 7)\<lparr>readAt := Some 9\<rparr>)) \<and>
   map_option readAt (findById (save db1 (read_once msg10 7)) 10) = Some (Some 7) \<and>
   map_option readAt (findById (save db1 ((read_once msg10 7)\<lparr>readAt := Some 9\<rparr>)) 10)
     = Some (Some 9) \<and>
   snd (markMessageRead (snd (markMessageRead db1 10 3 7)) 10 3 9)
     \<noteq> snd (markMessageRead db1 10 3 7)"
  by (simp add: markMessageRead_def findById_def save_def db1_def db0_def msg10_def
        new_message_def read_once_def)

text \<open>
  C4, amended. For a stored message whose receiver is \<open>u\<close>, a second
  \<^verbatim>\<open>markMessageRead\<close> succeeds like the first (it is not an error) and changes
  nothing but \<open>readAt\<close>, which becomes the time of the second call: \<open>isRead\<close> stays
  true, \<open>viewedAt\<close> and every other field keep the value the first call left. When both
  calls read the same clock value the second call changes nothing.
\<close>

theorem markRead_twice_restamps:
  assumes "findById d i = Some m" and "receiver m = u"
  shows "\<exists>d1 d2 m1. markMessageRead d i u t1 = (Inr (), d1) \<and>
           markMessageRead d1 i u t2 = (Inr (), d2) \<and>
           findById d1 i = Some m1 \<and> isRead m1 \<and> readAt m1 = Some t1 \<and>
           findById d2 i = Some (m1\<lparr>readAt := Some t2\<rparr>) \<and>
           d2 = save d1 (m1\<lparr>readAt := Some t2\<rparr>) \<and>
           (t2 = t1 \<longrightarrow> d2 = d1)"
proof -
  let ?m1 = "read_once m t1"
  let ?d1 = "save d ?m1"
  let ?m2 = "?m1\<lparr>readAt := Some t2\<rparr>"
  have id: "msg_id m = i" using assms(1) findById_SomeD by blast
  have f1: "findById ?d1 i = Some ?m1"
    using assms(1) id by (intro findById_save) (auto simp: read_once_def)
  have r1: "receiver ?m1 = u" using assms(2) by (simp add: read_once_def)
  have c1: "markMessageRead d i u t1 = (Inr (), ?d1)"
    using assms by (rule markMessageRead_receiver)
  have c2: "markMessageRead ?d1 i u t2 = (Inr (), save ?d1 ?m2)"
    using markMessageRead_receiver [OF f1 r1, of t2] by (simp add: read_once_twice)
  have f2: "findById (save ?d1 ?m2) i = Some ?m2"
    using f1 id by (intro findById_save) (auto simp: read_once_def)
  have "t2 = t1 \<Longrightarrow> ?m2 = ?m1"
    by (simp add: read_once_def)
  then have same: "t2 = t1 \<Longrightarrow> save ?d1 ?m2 = ?d1"
    by (simp add: save_save)
  have rd: "isRead ?m1 \<and> readAt ?m1 = Some t1"
    by (simp add: read_once_def)
  show ?thesis using c1 c2 f1 f2 same rd by blast
qed

theorem markRead_twice_restamps_witness:
  "findById db1 10 = Some msg10 \<and> receiver msg10 = 3 \<and>
   fst (markMessageRead db1 10 3 7) = Inr () \<and>
   fst (markMessageRead (snd (markMessageRead db1 10 3 7)) 10 3 9) = Inr () \<and>
   findById (snd (markMessageRead db1 10 3 7)) 10
     = Some (msg10\<lparr>isRead := True, readAt := Some 7\<rparr>) \<and>
   findById (snd (markMessageRead (snd (markMessageRead db1 10 3 7)) 10 3 9)) 10
     = Some (msg10\<lparr>isRead := True, readAt := Some 9\<rparr>) \<and>
   snd (markMessageRead (snd (markMessageRead db1 10 3 7)) 10 3 7)
     = snd (markMessageRead db1 10 3 7)"
proof -
  have r: "receiver msg10 = 3" by (simp add: msg10_def new_message_def)
  show ?thesis
    using markRead_twice_restamps [OF findById_db1 r, of 7 9]
          markRead_twice_restamps [OF findById_db1 r, of 7 7] findById_db1 r
    by (auto simp: markMessageRead_def findById_def save_def db1_def db0_def msg10_def
          new_message_def)
qed

section \<open>Deleting a message\<close>

text \<open>
  C3, as stated, fails: the receiver of message 10 (user 3, not its sender) asks for a
  delete for everyone. The request is not refused: it is carried out as a delete for the
  caller alone, and user 3 is appended to \<open>deletedFor\<close>.
\<close>

theorem delete_forEveryone_receiver_counterexample:
  "sender msg10 \<noteq> 3 \<and> receiver msg10 = 3 \<and> findById db1 10 = Some msg10 \<and>
   deleteMessage db1 10 3 (Some ''true'') = (Inr (), save db1 (msg10\<lparr>deletedFor := [3]\<rparr>)) \<and>
   deleteMessage db1 10 3 (Some ''true'') \<noteq> (Inl Forbidden, db1)"
  by (simp add: deleteMessage_def findById_def save_def db1_def db0_def msg10_def
        new_message_def)

text \<open>
  C3, amended. For a stored message \<open>m\<close>: a delete for everyone by the sender sets
  \<open>isDeleted\<close> and replaces the body by the tombstone; a delete for everyone by the
  receiver, who is not the sender, succeeds as a local delete that appends the receiver to
  \<open>deletedFor\<close>; a user who is neither gets Forbidden and the database is unchanged
  whatever the flag. Whatever the caller and the flag, \<open>isDeleted\<close> and the body change
  only in the sender's delete for everyone.
\<close>

theorem delete_forEveryone_by_role:
  assumes "findById d i = Some m"
  shows "(sender m = u \<longrightarrow>
            deleteMessage d i u (Some ''true'')
              = (Inr (), save d (m\<lparr>isDeleted := True, msg_text := tombstone\<rparr>))) \<and>
         (sender m \<noteq> u \<and> receiver m = u \<longrightarrow>
            deleteMessage d i u (Some ''true'')
              = (Inr (), save d (m\<lparr>deletedFor := deletedFor m @ [u]\<rparr>))) \<and>
         (sender m \<noteq> u \<and> receiver m \<noteq> u \<longrightarrow>
            deleteMessage d i u dfe = (Inl Forbidden, d)) \<and>
         (\<forall>m'. findById (snd (deleteMessage d i u dfe)) i = Some m' \<longrightarrow>
            (if dfe = Some ''true'' \<and> sender m = u
             then isDeleted m' \<and> msg_text m' = tombstone
             else isDeleted m' = isDeleted m \<and> msg_text m' = msg_text m))"
proof -
  have id: "msg_id m = i" using assms findById_SomeD by blast
  have a: "findById (save d (m\<lparr>isDeleted := True, msg_text := tombstone\<rparr>)) i
             = Some (m\<lparr>isDeleted := True, msg_text := tombstone\<rparr>)"
    using assms id by (intro findById_save) auto
  have b: "findById (save d (m\<lparr>deletedFor := deletedFor m @ [u]\<rparr>)) i
             = Some (m\<lparr>deletedFor := deletedFor m @ [u]\<rparr>)"
    using assms id by (intro findById_save) auto
  show ?thesis
    using assms a b by (auto simp: deleteMessage_def Let_def)
qed

theorem delete_forEveryone_by_role_witness:
  "findById db1 10 = Some msg10 \<and> sender msg10 = 1 \<and> sender msg10 \<noteq> 3 \<and> receiver msg10 = 3 \<and>
   sender msg10 \<noteq> 2 \<and> receiver msg10 \<noteq> 2 \<and>
   deleteMessage db1 10 1 (Some ''true'')
     = (Inr (), save db1 (msg10\<lparr>isDeleted := True, msg_text := tombstone\<rparr>)) \<and>
   deleteMessage db1 10 3 (Some ''true'')
     = (Inr (), save db1 (msg10\<lparr>deletedFor := deletedFor msg10 @ [3]\<rparr>)) \<and>
   deleteMessage db1 10 2 (Some ''true'') = (Inl Forbidden, db1) \<and>
   findById (snd (deleteMessage db1 10 1 (Some ''true''))) 10
     = Some (msg10\<lparr>isDeleted := True, msg_text := tombstone\<rparr>) \<and>
   findById (snd (deleteMessage db1 10 3 (Some ''true''))) 10
     = Some (msg10\<lparr>deletedFor := [3]\<rparr>) \<and>
   isDeleted (msg10\<lparr>deletedFor := [3]\<rparr>) = isDeleted msg10 \<and>
   msg_text (msg10\<lparr>deletedFor := [3]\<rparr>) = msg_text msg10"
  using delete_forEveryone_by_role [OF findById_db1, of 1 "Some ''true''"]
        delete_forEveryone_by_role [OF findById_db1, of 3 "Some ''true''"]
        delete_forEveryone_by_role [OF findById_db1, of 2 "Some ''true''"] findById_db1
  by (auto simp: msg10_def new_message_def findById_def save_def db1_def db0_def)

section \<open>Reactions\<close>

lemma toggle_absent:
  "(u, e) \<notin> set rs \<Longrightarrow> toggle u e rs = rs @ [(u, e)]"
proof -
  assume a: "(u, e) \<notin> set rs"
  have "find (\<lambda>r. fst r = u \<and> snd r = e) rs = None"
    using a by (auto simp: find_None_iff)
  then show ?thesis by (simp add: toggle_def)
qed

lemma toggle_present:
  "(u, e) \<in> set rs \<Longrightarrow> toggle u e rs = filter (\<lambda>r. \<not> (fst r = u \<and> snd r = e)) rs"
proof -
  assume a: "(u, e) \<in> set rs"
  have "find (\<lambda>r. fst r = u \<and> snd r = e) rs \<noteq> None"
    using a by (auto simp: find_None_iff)
  then show ?thesis by (auto simp: toggle_def)
qed

lemma set_toggle:
  "set (toggle u e rs) = (if (u, e) \<in> set rs then set rs - {(u, e)} else insert (u, e) (set rs))"
  by (auto simp: toggle_present toggle_absent)

lemma toggle_toggle_set: "set (toggle u e (toggle u e rs)) = set rs"
  by (auto simp: set_toggle)

text \<open>When the pair was absent, toggling twice gives back the very same array.\<close>

lemma toggle_toggle_absent: "(u, e) \<notin> set rs \<Longrightarrow> toggle u e (toggle u e rs) = rs"
proof -
  assume a: "(u, e) \<notin> set rs"
  have f: "filter (\<lambda>r. \<not> (fst r = u \<and> snd r = e)) rs = rs"
    using a by (induction rs) auto
  have "toggle u e (rs @ [(u, e)]) = filter (\<lambda>r. \<not> (fst r = u \<and> snd r = e)) (rs @ [(u, e)])"
    by (rule toggle_present) simp
  then show ?thesis using a f by (simp add: toggle_absent)
qed

lemma addReaction_found:
  "findById d i = Some m \<Longrightarrow> e \<noteq> [] \<Longrightarrow>
   addReaction d i u e = (Inr (toggle u e (reactions m)),
                          save d (m\<lparr>reactions := toggle u e (reactions m)\<rparr>))"
  by (simp add: addReaction_def Let_def)

text \<open>
  C9. For a stored message \<open>m\<close>, a user \<open>u\<close> and an emoji \<open>e\<close> (a non-empty string),
  two \<^verbatim>\<open>addReaction\<close> calls in succession both succeed; the first flips the
  membership of the pair \<open>(u, e)\<close> in the reactions of \<open>m\<close> and leaves every other pair,
  the second flips it back: the set of reactions is the original one, and nothing else of
  the message has changed.
\<close>

theorem toggleReaction_twice_restores:
  assumes "findById d i = Some m" and "e \<noteq> []"
  shows "\<exists>rs1 rs2 d1 d2.
           addReaction d i u e = (Inr rs1, d1) \<and> addReaction d1 i u e = (Inr rs2, d2) \<and>
           findById d1 i = Some (m\<lparr>reactions := rs1\<rparr>) \<and>
           findById d2 i = Some (m\<lparr>reactions := rs2\<rparr>) \<and>
           ((u, e) \<in> set rs1) = ((u, e) \<notin> set (reactions m)) \<and>
           set rs1 - {(u, e)} = set (reactions m) - {(u, e)} \<and>
           set rs2 = set (reactions m)"
proof -
  let ?rs1 = "toggle u e (reactions m)"
  let ?m1 = "m\<lparr>reactions := ?rs1\<rparr>"
  let ?d1 = "save d ?m1"
  let ?rs2 = "toggle u e ?rs1"
  let ?m2 = "m\<lparr>reactions := ?rs2\<rparr>"
  let ?d2 = "save ?d1 ?m2"
  have id: "msg_id m = i" using assms(1) findById_SomeD by blast
  have c1: "addReaction d i u e = (Inr ?rs1, ?d1)"
    using assms by (rule addReaction_found)
  have f1: "findById ?d1 i = Some ?m1"
    using assms(1) id by (intro findById_save) auto
  have c2: "addReaction ?d1 i u e = (Inr ?rs2, ?d2)"
    using addReaction_found [OF f1 assms(2), of u] by simp
  have f2: "findById ?d2 i = Some ?m2"
    using f1 id by (intro findById_save) auto
  have s1: "((u, e) \<in> set ?rs1) = ((u, e) \<notin> set (reactions m))"
    by (auto simp: set_toggle)
  have s2: "set ?rs1 - {(u, e)} = set (reactions m) - {(u, e)}"
    by (auto simp: set_toggle)
  have s3: "set ?rs2 = set (reactions m)"
    by (rule toggle_toggle_set)
  show ?thesis using c1 c2 f1 f2 s1 s2 s3 by blast
qed

theorem toggleReaction_twice_restores_witness:
  "findById db1 10 = Some msg10 \<and> ''+1'' \<noteq> [] \<and>
   fst (addReaction db1 10 2 ''+1'') = Inr [(2, ''+1'')] \<and>
   fst (addReaction (snd (addReaction db1 10 2 ''+1'')) 10 2 ''+1'') = Inr [] \<and>
   findById (snd (addReaction (snd (addReaction db1 10 2 ''+1'')) 10 2 ''+1'')) 10 = Some msg10 \<and>
   findById db1r 10 = Some msg10r \<and>
   fst (addReaction db1r 10 2 ''+1'') = Inr [(1, ''ok'')] \<and>
   fst (addReaction (snd (addReaction db1r 10 2 ''+1'')) 10 2 ''+1'')
     = Inr [(1, ''ok''), (2, ''+1'')] \<and>
   set [(1, ''ok''), (2, ''+1'')] = set (reactions msg10r)"
  using toggleReaction_twice_restores [of db1 10 msg10 "''+1''" 2]
        toggleReaction_twice_restores [of db1r 10 msg10r "''+1''" 2]
  by (auto simp: addReaction_def findById_def save_def toggle_def db1_def db1r_def db0_def
        msg10r_def msg10_def new_message_def Let_def)

section \<open>Sending\<close>

lemma toString_eq [simp]: "(toString a = toString b) = (a = b)"
  by (simp add: toString_def)

lemma toString_in_image [simp]: "(toString a \<in> toString ` A) = (a \<in> A)"
  by (auto simp: toString_def)

lemma Canonical_in_image [simp]: "(Canonical a \<in> toString ` A) = (a \<in> A)"
  by (auto simp: toString_def)

lemma Variant_notin_image [simp]: "Variant a k \<notin> toString ` A"
  by (auto simp: toString_def)

lemma p_msg_populate [simp]: "p_msg (populate d m) = m"
  by (simp add: populate_def)

lemma find_fresh_append:
  "i \<notin> set (map msg_id xs) \<Longrightarrow> msg_id m = i \<Longrightarrow> find (\<lambda>x. msg_id x = i) (xs @ [m]) = Some m"
  by (induction xs) auto

lemma findById_insert_new:
  "insert_new d m = Some d' \<Longrightarrow> findById d' (msg_id m) = Some m \<and> messages d' = messages d @ [m]"
  by (auto simp: insert_new_def findById_def find_fresh_append split: if_splits)






text \<open>
  The block test of the socket path compares strings. A payload that names a blocked
  sender by another spelling of the id passes it: the message is saved under the sender's
  id and routed. Here alice, whom bob has blocked, sends with her id in upper case.
\<close>

lemma live_sendMessage_variant_sender:
  assumes "md_sender md = Some (Variant a k)" and "md_receiver md = Some rm"
    and "cast rm = Some b" and "md_text md \<noteq> []"
    and "or_text (md_messageType md) \<in> set message_types"
    and "newId \<notin> set (map msg_id (messages d))"
  shows "\<exists>m. sender m = a \<and> receiver m = b \<and>
           fst (live_sendMessage d md newId now)
             = [Persist m,
                NewMessage (Some (Variant a k))
                  (Doc (Some (populate (d\<lparr>messages := messages d @ [m]\<rparr>) m))),
                NewMessage (Some rm)
                  (Doc (Some (populate (d\<lparr>messages := messages d @ [m]\<rparr>) m)))] \<and>
           snd (live_sendMessage d md newId now) = d\<lparr>messages := messages d @ [m]\<rparr>"
proof -
  let ?m = "new_message newId a b (md_text md) (md_messageType md) (md_mediaUrl md)
              (md_replyTo md) (md_oneTimeView md) now"
  let ?d' = "d\<lparr>messages := messages d @ [?m]\<rparr>"
  have ins: "insert_new d ?m = Some ?d'"
    using assms(4,5,6) by (simp add: insert_new_def validate_def new_message_def)
  have "findById ?d' newId = Some ?m"
    using findById_insert_new [OF ins] by (simp add: new_message_def)
  then have "live_sendMessage d md newId now =
               ([Persist ?m, NewMessage (Some (Variant a k)) (Doc (Some (populate ?d' ?m))),
                 NewMessage (Some rm) (Doc (Some (populate ?d' ?m)))], ?d')"
    using assms(1,2,3,4) ins
    by (simp add: live_sendMessage_def Let_def split: option.splits)
  moreover have "sender ?m = a \<and> receiver ?m = b"
    by (simp add: new_message_def)
  ultimately show ?thesis by (intro exI [of _ ?m]) simp
qed

lemma live_send_blocked_upper_case_persists:
  "users db0 2 = Some bob \<and> 1 \<in> set (blockedUsers bob) \<and>
   md_sender md_to_bob_upper = Some (Variant 1 0) \<and> cast (Variant 1 0) = Some 1 \<and>
   sender msg16 = 1 \<and> receiver msg16 = 2 \<and>
   live_sendMessage db0 md_to_bob_upper 16 5 =
     ([Persist msg16,
       NewMessage (Some (Variant 1 0)) (Doc (Some (populate (db0\<lparr>messages := [msg16]\<rparr>) msg16))),
       NewMessage (Some (Canonical 2)) (Doc (Some (populate (db0\<lparr>messages := [msg16]\<rparr>) msg16)))],
      db0\<lparr>messages := [msg16]\<rparr>)"
  by (simp add: live_sendMessage_def db0_def bob_def md_to_bob_upper_def md_to_bob_def
        msg16_def new_message_def insert_new_def validate_def message_types_def or_text_def
        or_null_def findById_def Let_def toString_def)

subsection \<open>An unknown receiver\<close>

text \<open>The request path turns every unknown receiver down and stores nothing.\<close>

lemma sendMessage_unknown_receiver:
  "b_receiver body = Some rb \<Longrightarrow> cast rb = Some r \<Longrightarrow> users d r = None \<Longrightarrow>
   sendMessage d s body newId now = (Inl NotFound, d)"
  by (simp add: sendMessage_def)

text \<open>
  The socket path stores and routes every valid message to an unknown receiver: its block
  test is skipped when the receiver does not resolve, and nothing else looks at the
  receiver.
\<close>

lemma live_sendMessage_unknown_receiver:
  assumes "md_sender md = Some sm" and "cast sm = Some s"
    and "md_receiver md = Some rm" and "cast rm = Some r" and "users d r = None"
    and "md_text md \<noteq> []" and "or_text (md_messageType md) \<in> set message_types"
    and "newId \<notin> set (map msg_id (messages d))"
  shows "\<exists>m. sender m = s \<and> receiver m = r \<and> msg_text m = md_text md \<and>
           fst (live_sendMessage d md newId now)
             = [Persist m,
                NewMessage (Some sm) (Doc (Some (populate (d\<lparr>messages := messages d @ [m]\<rparr>) m))),
                NewMessage (Some rm) (Doc (Some (populate (d\<lparr>messages := messages d @ [m]\<rparr>) m)))] \<and>
           snd (live_sendMessage d md newId now) = d\<lparr>messages := messages d @ [m]\<rparr>"
proof -
  let ?m = "new_message newId s r (md_text md) (md_messageType md) (md_mediaUrl md)
              (md_replyTo md) (md_oneTimeView md) now"
  let ?d' = "d\<lparr>messages := messages d @ [?m]\<rparr>"
  have ins: "insert_new d ?m = Some ?d'"
    using assms(6,7,8) by (simp add: insert_new_def validate_def new_message_def)
  have "findById ?d' newId = Some ?m"
    using findById_insert_new [OF ins] by (simp add: new_message_def)
  then have "live_sendMessage d md newId now =
               ([Persist ?m, NewMessage (Some sm) (Doc (Some (populate ?d' ?m))),
                 NewMessage (Some rm) (Doc (Some (populate ?d' ?m)))], ?d')"
    using assms(1,2,3,4,5,6) ins by (simp add: live_sendMessage_def Let_def)
  moreover have "sender ?m = s \<and> receiver ?m = r \<and> msg_text ?m = md_text md"
    by (simp add: new_message_def)
  ultimately show ?thesis by (intro exI [of _ ?m]) simp
qed

text \<open>
  C7 at a failing input. No user has id 99. Alice's request-path send to 99 is answered
  NotFound and stores nothing; her socket send of the same message is saved as message 11
  and routed to the rooms of both ids.
\<close>

theorem live_send_unknown_receiver_persists:
  "users db0 99 = None \<and>
   sendMessage db0 1 body_to_nobody 11 5 = (Inl NotFound, db0) \<and>
   live_sendMessage db0 md_to_nobody 11 5 =
     ([Persist msg11,
       NewMessage (Some (Canonical 1))
         (Doc (Some (populate (db0\<lparr>messages := [msg11]\<rparr>) msg11))),
       NewMessage (Some (Canonical 99))
         (Doc (Some (populate (db0\<lparr>messages := [msg11]\<rparr>) msg11)))],
      db0\<lparr>messages := [msg11]\<rparr>)"
  by (simp add: sendMessage_def live_sendMessage_def db0_def body_to_nobody_def md_to_nobody_def
        msg11_def new_message_def insert_new_def validate_def message_types_def or_text_def
        or_null_def findById_def Let_def)

subsection \<open>Persist, then route\<close>

text \<open>
  Every run of the handler of \<^verbatim>\<open>index.js\<close> either reports one error and leaves the
  database as it was, or saves the new message and then emits it, populated, to the two
  rooms.
\<close>

lemma live_sendMessage_trace:
  "(\<exists>e. live_sendMessage d md newId now = ([MessageError e], d)) \<or>
   (\<exists>s r m d'. insert_new d m = Some d' \<and> msg_id m = newId \<and>
      live_sendMessage d md newId now =
        ([Persist m, NewMessage (Some s) (Doc (Some (populate d' m))),
          NewMessage (Some r) (Doc (Some (populate d' m)))], d'))"
proof (cases "md_sender md")
  case None
  then show ?thesis by (simp add: live_sendMessage_def)
next
  case (Some sm)
  note sm = this
  show ?thesis
  proof (cases "md_receiver md")
    case None
    then show ?thesis using sm by (simp add: live_sendMessage_def)
  next
    case (Some rm)
    note rm = this
    show ?thesis
    proof (cases "cast sm")
      case None
      then show ?thesis using sm rm
        by (simp add: live_sendMessage_def split: option.splits)
    next
      case (Some s)
      note s = this
      show ?thesis
      proof (cases "cast rm")
        case None
        then show ?thesis using sm rm by (simp add: live_sendMessage_def)
      next
        case (Some r)
        let ?m = "new_message newId s r (md_text md) (md_messageType md) (md_mediaUrl md)
                    (md_replyTo md) (md_oneTimeView md) now"
        have id: "msg_id ?m = newId" by (simp add: new_message_def)
        show ?thesis
        proof (cases "insert_new d ?m")
          case None
          then show ?thesis using sm rm s Some by (simp add: live_sendMessage_def)
        next
          case (Some d')
          then have "findById d' newId = Some ?m"
            using findById_insert_new [of d ?m d'] id by simp
          then show ?thesis
            using sm rm s \<open>cast rm = Some r\<close> Some id
            by (simp add: live_sendMessage_def Let_def)
        qed
      qed
    qed
  qed
qed

lemma live_sendMessage_persist_then_route:
  "persist_then_route (fst (live_sendMessage d md newId now))"
  using live_sendMessage_trace [of d md newId now]
  by (auto simp: persist_then_route_def)

lemma live_sendMessage_emits_stored:
  assumes "NewMessage room (Doc p) \<in> set (fst (live_sendMessage d md newId now))"
  shows "\<exists>q. p = Some q \<and> p_msg q \<in> set (messages (snd (live_sendMessage d md newId now)))"
proof -
  have mem: "insert_new d m = Some d' \<Longrightarrow> m \<in> set (messages d')" for m d'
    using findById_insert_new [of d m d'] by simp
  show ?thesis
    using live_sendMessage_trace [of d md newId now] assms
    by (auto simp: mem)
qed

text \<open>The handler of the second server file never saves, whatever it is sent.\<close>

lemma relay_sendMessage_never_persists:
  "\<not> persist_then_route (fst (relay_sendMessage d md)) \<and> snd (relay_sendMessage d md) = d"
  by (simp add: relay_sendMessage_def persist_then_route_def)

text \<open>
  C2 at a failing input. Alice's socket send to carol on the handler of the second server
  file (\<^verbatim>\<open>unnamed/part_002\<close>, lines 63 to 75): the payload is emitted to both rooms,
  no message has been saved before the emits and the collection is as empty as before.
  The same send on the handler of \<^verbatim>\<open>index.js\<close> saves message 15 first and emits it
  afterwards.
\<close>

theorem relay_routes_without_persist:
  "relay_sendMessage db0 md_to_carol =
     ([NewMessage (Some (Canonical 1)) (Raw md_to_carol),
       NewMessage (Some (Canonical 3)) (Raw md_to_carol)], db0) \<and>
   messages db0 = [] \<and>
   \<not> persist_then_route (fst (relay_sendMessage db0 md_to_carol)) \<and>
   live_sendMessage db0 md_to_carol 15 5 =
     ([Persist msg15,
       NewMessage (Some (Canonical 1))
         (Doc (Some (populate (db0\<lparr>messages := [msg15]\<rparr>) msg15))),
       NewMessage (Some (Canonical 3))
         (Doc (Some (populate (db0\<lparr>messages := [msg15]\<rparr>) msg15)))],
      db0\<lparr>messages := [msg15]\<rparr>) \<and>
   persist_then_route (fst (live_sendMessage db0 md_to_carol 15 5))"
  by (simp add: relay_sendMessage_def persist_then_route_def md_to_carol_def db0_def
        live_sendMessage_def msg15_def new_message_def insert_new_def validate_def
        message_types_def or_text_def or_null_def findById_def Let_def carol_def)

section \<open>Presence\<close>

lemma users_updateUserStatus_offline:
  "users d u = Some x \<Longrightarrow>
   users (updateUserStatus ou d u ''offline'' now) u
     = Some (x\<lparr>status := ''offline'', lastSeen := Some now\<rparr>)"
  by (simp add: updateUserStatus_def)

text \<open>A join sets the user online, whatever the sockets that are already joined.\<close>

lemma join_sets_online:
  "conns s h = Some so \<Longrightarrow> users (store s) u = Some x \<Longrightarrow>
   status_of (snd (on_join ou s h (Some u) now)) u = Some ''online'' \<and>
   live_for (snd (on_join ou s h (Some u) now)) u h"
  by (simp add: on_join_def status_of_def live_for_def updateUserStatus_def)

text \<open>
  C6, as stated, fails: carol is joined from sockets 1 and 2 and her status is online;
  socket 1 disconnects at time 30. Socket 2 is still joined as carol, yet her status is
  now offline and the offline status update has been broadcast.
\<close>

theorem disconnect_one_of_two_counterexample:
  "live_for srv_two 3 1 \<and> live_for srv_two 3 2 \<and> status_of srv_two 3 = Some ''online'' \<and>
   fst (on_disconnect True srv_two 1 30) = [StatusUpdate 1 3 ''offline''] \<and>
   live_for (snd (on_disconnect True srv_two 1 30)) 3 2 \<and>
   status_of (snd (on_disconnect True srv_two 1 30)) 3 = Some ''offline'' \<and>
   status_of (snd (on_disconnect True srv_two 1 30)) 3 \<noteq> Some ''online''"
  by (simp add: srv_two_def srv_one_def srv0_def on_join_def on_connection_def on_disconnect_def
        updateUserStatus_def db0_def carol_def live_for_def status_of_def)

text \<open>
  C6, amended. The disconnect of any socket that joined as an existing user \<open>u\<close> sets the
  status of \<open>u\<close> to offline, stamps \<open>lastSeen\<close> with the time of the disconnect and
  broadcasts the offline status update, whether or not other sockets of \<open>u\<close> remain: the
  other sockets stay joined as they were, and no count of a user's sockets is kept. In
  particular the disconnect of the last socket sets the user offline with \<open>lastSeen\<close>
  stamped.
\<close>

theorem disconnect_sets_offline:
  assumes "conns s h = Some so" and "currentUserId so = Some u" and "users (store s) u = Some x"
  shows "fst (on_disconnect ou s h now) = [StatusUpdate h u ''offline''] \<and>
         status_of (snd (on_disconnect ou s h now)) u = Some ''offline'' \<and>
         lastSeen_of (snd (on_disconnect ou s h now)) u = Some now \<and>
         \<not> live_for (snd (on_disconnect ou s h now)) u h \<and>
         (\<forall>h'. h' \<noteq> h \<longrightarrow>
            live_for (snd (on_disconnect ou s h now)) u h' = live_for s u h')"
  using assms
  by (simp add: on_disconnect_def status_of_def lastSeen_of_def live_for_def
        users_updateUserStatus_offline)

theorem disconnect_sets_offline_witness:
  "conns srv_two 1 = Some \<lparr>currentUserId = Some 3, rooms = [3]\<rparr> \<and>
   currentUserId \<lparr>currentUserId = Some 3, rooms = [3]\<rparr> = Some 3 \<and>
   users (store srv_two) 3 = Some (carol\<lparr>status := ''online''\<rparr>) \<and>
   (2::nat) \<noteq> 1 \<and> live_for srv_two 3 2 \<and>
   fst (on_disconnect True srv_two 1 30) = [StatusUpdate 1 3 ''offline''] \<and>
   status_of (snd (on_disconnect True srv_two 1 30)) 3 = Some ''offline'' \<and>
   lastSeen_of (snd (on_disconnect True srv_two 1 30)) 3 = Some 30 \<and>
   live_for (snd (on_disconnect True srv_two 1 30)) 3 2 \<and>
   conns (snd (on_disconnect True srv_two 1 30)) 2 = Some \<lparr>currentUserId = Some 3, rooms = [3]\<rparr> \<and>
   users (store (snd (on_disconnect True srv_two 1 30))) 3
     = Some (carol\<lparr>status := ''offline'', lastSeen := Some 30\<rparr>) \<and>
   status_of (snd (on_disconnect True (snd (on_disconnect True srv_two 1 30)) 2 31)) 3
     = Some ''offline'' \<and>
   lastSeen_of (snd (on_disconnect True (snd (on_disconnect True srv_two 1 30)) 2 31)) 3
     = Some 31"
proof -
  let ?so = "\<lparr>currentUserId = Some 3, rooms = [3::nat]\<rparr>"
  let ?s1 = "snd (on_disconnect True srv_two 1 30)"
  have c1: "conns srv_two 1 = Some ?so"
    by (simp add: srv_two_def srv_one_def srv0_def on_join_def on_connection_def)
  have u1: "users (store srv_two) 3 = Some (carol\<lparr>status := ''online''\<rparr>)"
    by (simp add: srv_two_def srv_one_def srv0_def on_join_def on_connection_def
          updateUserStatus_def db0_def carol_def)
  have l2: "live_for srv_two 3 2"
    by (simp add: srv_two_def srv_one_def srv0_def on_join_def on_connection_def live_for_def)
  have c2: "conns ?s1 2 = Some ?so"
    by (simp add: srv_two_def srv_one_def srv0_def on_join_def on_connection_def
          on_disconnect_def)
  have u2: "users (store ?s1) 3 = Some (carol\<lparr>status := ''offline'', lastSeen := Some 30\<rparr>)"
    using c1 u1 by (simp add: on_disconnect_def users_updateUserStatus_offline)
  have cu: "currentUserId ?so = Some 3" by simp
  show ?thesis
    using disconnect_sets_offline [OF c1 cu u1, of True 30]
          disconnect_sets_offline [OF c2 cu u2, of True 31] c1 u1 l2 c2 u2
    by simp
qed

section \<open>Listing a conversation\<close>

lemma map_p_msg_populate: "map p_msg (map (populate d) xs) = xs"
  by (induction xs) auto

lemma set_query_messages:
  "set (query_messages d u c) = {m \<in> set (messages d). between u c m \<and> u \<notin> set (deletedFor m)}"
  by (auto simp: query_messages_def)

lemma mset_query_messages:
  "mset (query_messages d u c)
     = filter_mset (\<lambda>m. between u c m \<and> u \<notin> set (deletedFor m)) (mset (messages d))"
  by (simp add: query_messages_def)

lemma sorted_query_messages: "sorted (map timestamp (query_messages d u c))"
  by (simp add: query_messages_def sorted_sort_key)

text \<open>When both users exist every loaded message has a sender that resolves.\<close>

lemma populate_all_resolved:
  assumes "users d u = Some xu" and "users d c = Some xc"
  shows "\<not> list_ex (\<lambda>p. p_sender p = None) (map (populate d) (query_messages d u c))"
  using assms
  by (auto simp: list_ex_iff set_query_messages between_def populate_def profile_of_def)

lemma getMessages_ok:
  assumes "users d u = Some xu" and "users d c = Some xc" and "cast rc = Some c"
  shows "getMessages d u rc now =
           (Inr (map (populate d) (query_messages d u c)),
            if unread_ids d u c rc \<noteq> [] then updateMany_read d (unread_ids d u c rc) now
            else d)"
proof -
  have f: "filter (\<lambda>p. toString (sender (p_msg p)) = rc \<and> \<not> isRead (p_msg p))
             (map (populate d) xs)
             = map (populate d) (filter (\<lambda>m. toString (sender m) = rc \<and> \<not> isRead m) xs)" for xs
    by (induction xs) auto
  show ?thesis
    using populate_all_resolved [OF assms(1,2)] assms(3)
    by (simp add: getMessages_def Let_def f unread_ids_def comp_def)
qed

lemma listBetween_sorted_filtered:
  assumes "users d u = Some xu" and "users d c = Some xc" and "cast rc = Some c"
  shows "\<exists>ps d'. getMessages d u rc now = (Inr ps, d') \<and>
           sorted (map (\<lambda>p. timestamp (p_msg p)) ps) \<and>
           mset (map p_msg ps)
             = filter_mset (\<lambda>m. between u c m \<and> u \<notin> set (deletedFor m)) (mset (messages d))"
proof -
  let ?ps = "map (populate d) (query_messages d u c)"
  have ts: "map (\<lambda>p. timestamp (p_msg p)) ?ps = map timestamp (query_messages d u c)"
    by (simp add: comp_def)
  have "sorted (map (\<lambda>p. timestamp (p_msg p)) ?ps)"
    unfolding ts by (rule sorted_query_messages)
  moreover have "mset (map p_msg ?ps)
      = filter_mset (\<lambda>m. between u c m \<and> u \<notin> set (deletedFor m)) (mset (messages d))"
    unfolding map_p_msg_populate by (rule mset_query_messages)
  ultimately show ?thesis
    using getMessages_ok [OF assms, of now] by blast
qed

lemma deleteMessage_local:
  assumes "findById d i = Some m" and "sender m = u \<or> receiver m = u" and "dfe \<noteq> Some ''true''"
  shows "deleteMessage d i u dfe = (Inr (), save d (m\<lparr>deletedFor := deletedFor m @ [u]\<rparr>))"
  using assms by (auto simp: deleteMessage_def Let_def)

lemma set_messages_save:
  "m \<in> set (messages d) \<Longrightarrow> msg_id m' = msg_id m \<Longrightarrow>
   m' \<in> set (messages (save d m')) \<and>
   (\<forall>x \<in> set (messages (save d m')). msg_id x = msg_id m \<longrightarrow> x = m')"
  by (auto simp: save_def)

lemma local_delete_hides_for_caller_only:
  assumes "users d u = Some xu" and "users d c = Some xc" and "cast rc = Some c"
    and "cast ru = Some u" and "u \<noteq> c"
    and "findById d i = Some m" and "between u c m" and "c \<notin> set (deletedFor m)"
    and "dfe \<noteq> Some ''true''"
  shows "\<exists>d1 ps1 e1 ps2 e2.
           deleteMessage d i u dfe = (Inr (), d1) \<and>
           getMessages d1 u rc t1 = (Inr ps1, e1) \<and>
           i \<notin> set (map (\<lambda>p. msg_id (p_msg p)) ps1) \<and>
           getMessages d1 c ru t2 = (Inr ps2, e2) \<and>
           (\<exists>p \<in> set ps2. msg_id (p_msg p) = i \<and> msg_text (p_msg p) = msg_text m \<and>
                           isDeleted (p_msg p) = isDeleted m)"
proof -
  let ?m' = "m\<lparr>deletedFor := deletedFor m @ [u]\<rparr>"
  let ?d1 = "save d ?m'"
  have mem: "m \<in> set (messages d)" and id: "msg_id m = i"
    using assms(6) findById_SomeD by blast+
  have role: "sender m = u \<or> receiver m = u"
    using assms(7) by (auto simp: between_def)
  have del: "deleteMessage d i u dfe = (Inr (), ?d1)"
    using assms(6) role assms(9) by (rule deleteMessage_local)
  have sv: "?m' \<in> set (messages ?d1)"
    and only: "\<forall>x \<in> set (messages ?d1). msg_id x = msg_id m \<longrightarrow> x = ?m'"
    using set_messages_save [OF mem, of ?m'] by simp_all
  have us: "users ?d1 u = Some xu" "users ?d1 c = Some xc"
    using assms(1,2) by simp_all
  have g1: "getMessages ?d1 u rc t1 = (Inr (map (populate ?d1) (query_messages ?d1 u c)),
              if unread_ids ?d1 u c rc \<noteq> [] then updateMany_read ?d1 (unread_ids ?d1 u c rc) t1
              else ?d1)"
    using us assms(3) by (rule getMessages_ok)
  have g2: "getMessages ?d1 c ru t2 = (Inr (map (populate ?d1) (query_messages ?d1 c u)),
              if unread_ids ?d1 c u ru \<noteq> [] then updateMany_read ?d1 (unread_ids ?d1 c u ru) t2
              else ?d1)"
    using us(2) us(1) assms(4) by (rule getMessages_ok)
  have absent: "i \<notin> set (map (\<lambda>p. msg_id (p_msg p)) (map (populate ?d1) (query_messages ?d1 u c)))"
  proof
    assume "i \<in> set (map (\<lambda>p. msg_id (p_msg p)) (map (populate ?d1) (query_messages ?d1 u c)))"
    then obtain x where x: "x \<in> set (query_messages ?d1 u c)" "msg_id x = i"
      by auto
    then have "x \<in> set (messages ?d1)" "u \<notin> set (deletedFor x)"
      by (simp_all add: set_query_messages)
    moreover have "x = ?m'" using only x id \<open>x \<in> set (messages ?d1)\<close> by simp
    ultimately show False by simp
  qed
  have "between c u ?m'" using assms(7) by (auto simp: between_def)
  moreover have "c \<notin> set (deletedFor ?m')" using assms(5,8) by simp
  ultimately have "?m' \<in> set (query_messages ?d1 c u)"
    using sv by (simp add: set_query_messages)
  then have present: "populate ?d1 ?m' \<in> set (map (populate ?d1) (query_messages ?d1 c u))"
    by simp
  have "msg_id (p_msg (populate ?d1 ?m')) = i \<and> msg_text (p_msg (populate ?d1 ?m')) = msg_text m
        \<and> isDeleted (p_msg (populate ?d1 ?m')) = isDeleted m"
    using id by simp
  with del g1 g2 absent present show ?thesis by blast
qed

text \<open>
  C8. For users \<open>u\<close> and \<open>c\<close>, \<^verbatim>\<open>getMessages\<close> of \<open>u\<close> with \<open>c\<close> (named by any
  spelling of the id) succeeds and returns, ascending by \<open>timestamp\<close>, exactly the stored
  messages between the two whose \<open>deletedFor\<close> does not hold \<open>u\<close> (each one as often as
  it is stored). Consequently, when \<open>u\<close> deletes a message \<open>m\<close> of the conversation for
  themselves, the delete succeeds, \<open>m\<close> is absent from the list \<open>u\<close> gets, and the
  counterpart \<open>c\<close>, who saw \<open>m\<close> before, still gets it with its body and its
  \<open>isDeleted\<close> flag as they were.
\<close>

theorem listBetween_view:
  assumes "users d u = Some xu" and "users d c = Some xc" and "cast rc = Some c"
  shows "(\<exists>ps d'. getMessages d u rc now = (Inr ps, d') \<and>
            sorted (map (\<lambda>p. timestamp (p_msg p)) ps) \<and>
            mset (map p_msg ps)
              = filter_mset (\<lambda>m. between u c m \<and> u \<notin> set (deletedFor m)) (mset (messages d))) \<and>
         (\<forall>i m dfe ru. cast ru = Some u \<and> u \<noteq> c \<and> findById d i = Some m \<and> between u c m \<and>
                     c \<notin> set (deletedFor m) \<and> dfe \<noteq> Some ''true'' \<longrightarrow>
            (\<exists>d1 ps1 e1 ps2 e2.
               deleteMessage d i u dfe = (Inr (), d1) \<and>
               getMessages d1 u rc t1 = (Inr ps1, e1) \<and>
               i \<notin> set (map (\<lambda>p. msg_id (p_msg p)) ps1) \<and>
               getMessages d1 c ru t2 = (Inr ps2, e2) \<and>
               (\<exists>p \<in> set ps2. msg_id (p_msg p) = i \<and> msg_text (p_msg p) = msg_text m \<and>
                               isDeleted (p_msg p) = isDeleted m)))"
  using listBetween_sorted_filtered [OF assms, of now]
        local_delete_hides_for_caller_only [OF assms, of _ _ _ _ t1 t2]
  by blast

theorem listBetween_view_witness:
  "users db2 3 = Some carol \<and> users db2 1 = Some alice \<and> cast (Canonical 1) = Some 1 \<and>
   fst (getMessages db2 3 (Canonical 1) 20) = Inr [populate db2 msg10, populate db2 msg12] \<and>
   map timestamp [msg10, msg12] = [5, 9] \<and>
   cast (Canonical 3) = Some 3 \<and>
   (3::nat) \<noteq> 1 \<and> findById db2 10 = Some msg10 \<and> between 3 1 msg10 \<and>
   1 \<notin> set (deletedFor msg10) \<and> None \<noteq> Some ''true'' \<and>
   deleteMessage db2 10 3 None = (Inr (), save db2 (msg10\<lparr>deletedFor := [3]\<rparr>)) \<and>
   fst (getMessages (save db2 (msg10\<lparr>deletedFor := [3]\<rparr>)) 3 (Canonical 1) 30)
     = Inr [populate (save db2 (msg10\<lparr>deletedFor := [3]\<rparr>)) msg12] \<and>
   fst (getMessages (save db2 (msg10\<lparr>deletedFor := [3]\<rparr>)) 1 (Canonical 3) 31)
     = Inr (map (populate (save db2 (msg10\<lparr>deletedFor := [3]\<rparr>)))
              [msg10\<lparr>deletedFor := [3]\<rparr>, msg13, msg12]) \<and>
   msg_text (msg10\<lparr>deletedFor := [3]\<rparr>) = ''hi''"
proof -
  have u: "users db2 3 = Some carol" "users db2 1 = Some alice"
    by (simp_all add: db2_def db0_def)
  have c1: "cast (Canonical 1) = Some 1" and c3: "cast (Canonical 3) = Some 3"
    by simp_all
  have f: "findById db2 10 = Some msg10"
    by (simp add: findById_def db2_def msg12_def msg10_def new_message_def)
  have b: "between 3 1 msg10" "1 \<notin> set (deletedFor msg10)"
    by (simp_all add: between_def msg10_def new_message_def)
  have q1: "query_messages db2 3 1 = [msg10, msg12]"
    by (simp add: query_messages_def between_def db2_def msg10_def msg12_def msg13_def
          msg14_def new_message_def)
  let ?d1 = "save db2 (msg10\<lparr>deletedFor := [3]\<rparr>)"
  have us: "users ?d1 3 = Some carol" "users ?d1 1 = Some alice"
    using u by simp_all
  have md1: "messages ?d1 = [msg12, msg10\<lparr>deletedFor := [3]\<rparr>, msg13, msg14]"
    by (simp add: save_def db2_def msg10_def msg12_def msg13_def msg14_def new_message_def)
  have q2: "query_messages ?d1 3 1 = [msg12]"
    unfolding query_messages_def md1
    by (simp add: between_def msg10_def msg12_def msg13_def msg14_def new_message_def)
  have q3: "query_messages ?d1 1 3 = [msg10\<lparr>deletedFor := [3]\<rparr>, msg13, msg12]"
    unfolding query_messages_def md1
    by (simp add: between_def msg10_def msg12_def msg13_def msg14_def new_message_def)
  have del: "deleteMessage db2 10 3 None = (Inr (), ?d1)"
    using f by (simp add: deleteMessage_def Let_def msg10_def new_message_def)
  have g1: "fst (getMessages db2 3 (Canonical 1) 20)
              = Inr [populate db2 msg10, populate db2 msg12]"
    using getMessages_ok [OF u c1, of 20] q1 by simp
  have g2: "fst (getMessages ?d1 3 (Canonical 1) 30) = Inr [populate ?d1 msg12]"
    using getMessages_ok [OF us c1, of 30] q2 by simp
  have g3: "fst (getMessages ?d1 1 (Canonical 3) 31)
              = Inr (map (populate ?d1) [msg10\<lparr>deletedFor := [3]\<rparr>, msg13, msg12])"
    using getMessages_ok [OF us(2) us(1) c3, of 31] q3 by simp
  have ts: "map timestamp [msg10, msg12] = [5, 9]"
    by (simp add: msg10_def msg12_def new_message_def)
  have tx: "msg_text (msg10\<lparr>deletedFor := [3]\<rparr>) = ''hi''"
    by (simp add: msg10_def new_message_def)
  have ne: "(3::nat) \<noteq> 1" "None \<noteq> Some ''true''"
    by simp_all
  show ?thesis
    using listBetween_view [OF u c1, of 20 30 31] u c1 c3 f b del g1 g2 g3 ts tx ne
    by blast
qed

section \<open>The response of a listing is a snapshot\<close>

lemma read_inv_save:
  "read_inv d \<Longrightarrow> isRead m \<or> readAt m = None \<Longrightarrow> read_inv (save d m)"
  by (auto simp: read_inv_def save_def list_all_iff)

lemma read_inv_insert_new:
  "read_inv d \<Longrightarrow> insert_new d m = Some d' \<Longrightarrow> isRead m \<or> readAt m = None \<Longrightarrow> read_inv d'"
  by (auto simp: read_inv_def insert_new_def list_all_iff split: if_splits)

lemma read_inv_updateMany_read: "read_inv d \<Longrightarrow> read_inv (updateMany_read d ids now)"
  by (auto simp: read_inv_def updateMany_read_def list_all_iff)

lemma read_inv_findById:
  "read_inv d \<Longrightarrow> findById d i = Some m \<Longrightarrow> isRead m \<or> readAt m = None"
  using findById_SomeD [of d i m] by (auto simp: read_inv_def list_all_iff)

lemma read_inv_db0: "read_inv db0"
  by (simp add: read_inv_def db0_def)

lemma read_inv_sendMessage: "read_inv d \<Longrightarrow> read_inv (snd (sendMessage d s b newId now))"
  by (auto simp: sendMessage_def new_message_def split: option.splits
           intro: read_inv_insert_new)

lemma read_inv_live_sendMessage:
  "read_inv d \<Longrightarrow> read_inv (snd (live_sendMessage d md newId now))"
  by (auto simp: live_sendMessage_def new_message_def Let_def split: option.splits
           intro: read_inv_insert_new)

lemma read_inv_markMessageRead:
  "read_inv d \<Longrightarrow> read_inv (snd (markMessageRead d i u now))"
  by (auto simp: markMessageRead_def split: option.splits intro!: read_inv_save)

lemma read_inv_deleteMessage:
  "read_inv d \<Longrightarrow> read_inv (snd (deleteMessage d i u dfe))"
  by (auto simp: deleteMessage_def Let_def split: option.splits
           intro!: read_inv_save dest: read_inv_findById)

lemma read_inv_addReaction:
  "read_inv d \<Longrightarrow> read_inv (snd (addReaction d i u e))"
  by (auto simp: addReaction_def Let_def split: option.splits
           intro!: read_inv_save dest: read_inv_findById)

lemma read_inv_getMessages:
  "read_inv d \<Longrightarrow> read_inv (snd (getMessages d u rc now))"
  by (auto simp: getMessages_def Let_def read_inv_updateMany_read split: option.splits)

text \<open>
  When the route parameter is the canonical spelling of the counterpart's id, the
  response is a snapshot taken before the update: every returned message is a document of
  the collection as it was before the call; every unread message from \<open>c\<close> to \<open>u\<close> that
  \<open>u\<close> has not hidden is returned with \<open>isRead\<close> false and \<open>readAt\<close> null, while the
  collection after the call holds it with \<open>isRead\<close> true and \<open>readAt\<close> the time of the
  call.
\<close>

lemma getMessages_snapshot_canonical:
  assumes "users d u = Some xu" and "users d c = Some xc" and "read_inv d"
  shows "\<exists>ps d'. getMessages d u (Canonical c) now = (Inr ps, d') \<and>
           (\<forall>p \<in> set ps. p_msg p \<in> set (messages d)) \<and>
           (\<forall>m \<in> set (messages d).
              sender m = c \<and> receiver m = u \<and> \<not> isRead m \<and> u \<notin> set (deletedFor m) \<longrightarrow>
                (\<exists>p \<in> set ps. p_msg p = m \<and> \<not> isRead (p_msg p) \<and> readAt (p_msg p) = None) \<and>
                m\<lparr>isRead := True, readAt := Some now\<rparr> \<in> set (messages d') \<and>
                (\<forall>m' \<in> set (messages d'). msg_id m' = msg_id m \<longrightarrow>
                   isRead m' \<and> readAt m' = Some now))"
proof -
  let ?q = "query_messages d u c"
  let ?ps = "map (populate d) ?q"
  let ?ids = "unread_ids d u c (Canonical c)"
  let ?d' = "if ?ids \<noteq> [] then updateMany_read d ?ids now else d"
  have g: "getMessages d u (Canonical c) now = (Inr ?ps, ?d')"
    using assms(1,2) by (intro getMessages_ok) simp_all
  have snap: "\<forall>p \<in> set ?ps. p_msg p \<in> set (messages d)"
    by (auto simp: set_query_messages)
  have upd: "(\<exists>p \<in> set ?ps. p_msg p = m \<and> \<not> isRead (p_msg p) \<and> readAt (p_msg p) = None) \<and>
             m\<lparr>isRead := True, readAt := Some now\<rparr> \<in> set (messages ?d') \<and>
             (\<forall>m' \<in> set (messages ?d'). msg_id m' = msg_id m \<longrightarrow>
                isRead m' \<and> readAt m' = Some now)"
    if m: "m \<in> set (messages d)" "sender m = c" "receiver m = u" "\<not> isRead m"
          "u \<notin> set (deletedFor m)" for m
  proof -
    have q: "m \<in> set ?q"
      using m by (simp add: set_query_messages between_def)
    have rn: "readAt m = None"
      using assms(3) m(1,4) by (auto simp: read_inv_def list_all_iff)
    have inids: "msg_id m \<in> set ?ids"
      using q m by (auto simp: unread_ids_def toString_def)
    then have ne: "?ids \<noteq> []" by auto
    have a: "\<exists>p \<in> set ?ps. p_msg p = m \<and> \<not> isRead (p_msg p) \<and> readAt (p_msg p) = None"
      using q m(4) rn by (intro bexI [of _ "populate d m"]) auto
    have b: "m\<lparr>isRead := True, readAt := Some now\<rparr> \<in> set (messages ?d')"
      using ne inids m(1) by (auto simp: updateMany_read_def intro!: image_eqI [of _ _ m])
    have c: "\<forall>m' \<in> set (messages ?d'). msg_id m' = msg_id m \<longrightarrow>
               isRead m' \<and> readAt m' = Some now"
      using ne inids by (auto simp: updateMany_read_def split: if_splits)
    show ?thesis using a b c by blast
  qed
  show ?thesis using g snap upd by blast
qed

text \<open>
  The filter that picks the messages to mark compares the spelling of each sender's id
  with the route parameter as it was sent. With any other spelling of the counterpart's
  id the list is returned all the same, and nothing is marked read.
\<close>

lemma getMessages_variant_marks_nothing:
  assumes "users d u = Some xu" and "users d c = Some xc"
  shows "getMessages d u (Variant c k) now = (Inr (map (populate d) (query_messages d u c)), d)"
proof -
  have "unread_ids d u c (Variant c k) = []"
    by (simp add: unread_ids_def toString_def)
  then show ?thesis
    using getMessages_ok [OF assms, of "Variant c k" now] by simp
qed

text \<open>
  C10 at a failing input. Message 10 from alice (user 1) to carol (user 3) is unread.
  Carol lists the conversation with alice's id in upper case, a valid object id that the
  query casts to alice's id: the response holds message 10 unread, and the collection is
  exactly as before, message 10 still unread. With the canonical spelling the same
  request returns the same list and leaves message 10 read, stamped with the time of the
  call.
\<close>

theorem getMessages_upper_case_marks_nothing:
  "users db1 3 = Some carol \<and> users db1 1 = Some alice \<and> cast (Variant 1 0) = Some 1 \<and>
   messages db1 = [msg10] \<and> sender msg10 = 1 \<and> receiver msg10 = 3 \<and>
   isRead msg10 = False \<and> deletedFor msg10 = [] \<and>
   getMessages db1 3 (Variant 1 0) 8 = (Inr [populate db1 msg10], db1) \<and>
   getMessages db1 3 (Canonical 1) 8
     = (Inr [populate db1 msg10],
        db1\<lparr>messages := [msg10\<lparr>isRead := True, readAt := Some 8\<rparr>]\<rparr>)"
proof -
  have u: "users db1 3 = Some carol" "users db1 1 = Some alice"
    by (simp_all add: db1_def db0_def)
  have m: "messages db1 = [msg10]" "sender msg10 = 1" "receiver msg10 = 3"
    "isRead msg10 = False" "deletedFor msg10 = []"
    by (simp_all add: db1_def msg10_def new_message_def)
  have q: "query_messages db1 3 1 = [msg10]"
    by (simp add: query_messages_def between_def db1_def msg10_def new_message_def)
  have ids: "unread_ids db1 3 1 (Canonical 1) = [10]"
    unfolding unread_ids_def q by (simp add: msg10_def new_message_def toString_def)
  have idv: "unread_ids db1 3 1 (Variant 1 0) = []"
    unfolding unread_ids_def q by (simp add: toString_def)
  have upd: "updateMany_read db1 [10] 8
               = db1\<lparr>messages := [msg10\<lparr>isRead := True, readAt := Some 8\<rparr>]\<rparr>"
    by (simp add: updateMany_read_def db1_def msg10_def new_message_def)
  have gv: "getMessages db1 3 (Variant 1 0) 8 = (Inr [populate db1 msg10], db1)"
    using getMessages_ok [OF u, of "Variant 1 0" 8] q idv by simp
  have gc: "getMessages db1 3 (Canonical 1) 8
             = (Inr [populate db1 msg10],
                db1\<lparr>messages := [msg10\<lparr>isRead := True, readAt := Some 8\<rparr>]\<rparr>)"
    using getMessages_ok [OF u, of "Canonical 1" 8] q ids upd by simp
  show ?thesis using u m gv gc by simp
qed

end
